theory Spec2Isabelle
  imports Complex_Main
begin

section \<open>Numbers of the program\<close>

text \<open>
  Go's \<open>int\<close> is a 64-bit two's-complement integer. The model keeps integers as \<open>int\<close>
  and writes the wrap-around out at the subtractions the source performs.
\<close>

definition int64_wrap :: "int \<Rightarrow> int" where
  "int64_wrap x = (x + 2 ^ 63) mod 2 ^ 64 - 2 ^ 63"

definition isub :: "int \<Rightarrow> int \<Rightarrow> int" where
  "isub a b = int64_wrap (a - b)"

text \<open>
  A \<open>float64\<close> is modelled as an exact real extended by the IEEE-754 special values.
  Rounding and overflow of finite results are not modelled, and the two zeros are not
  told apart: every divisor of the program is converted from an integer, hence is \<open>+0\<close>
  when it is zero. Comparisons with \<open>NaN\<close> are false, as in Go.
\<close>

datatype float64 = Finite real | PosInf | NegInf | NaN

definition float64_of_int :: "int \<Rightarrow> float64" where
  "float64_of_int n = Finite (of_int n)"

fun isFinite :: "float64 \<Rightarrow> bool" where
  "isFinite (Finite r) = True"
| "isFinite _ = False"

fun fadd :: "float64 \<Rightarrow> float64 \<Rightarrow> float64" where
  "fadd NaN _ = NaN"
| "fadd _ NaN = NaN"
| "fadd (Finite a) (Finite b) = Finite (a + b)"
| "fadd (Finite a) PosInf = PosInf"
| "fadd (Finite a) NegInf = NegInf"
| "fadd PosInf NegInf = NaN"
| "fadd PosInf _ = PosInf"
| "fadd NegInf PosInf = NaN"
| "fadd NegInf _ = NegInf"

fun fmul :: "float64 \<Rightarrow> float64 \<Rightarrow> float64" where
  "fmul NaN _ = NaN"
| "fmul _ NaN = NaN"
| "fmul (Finite a) (Finite b) = Finite (a * b)"
| "fmul (Finite a) PosInf = (if 0 < a then PosInf else if a < 0 then NegInf else NaN)"
| "fmul (Finite a) NegInf = (if 0 < a then NegInf else if a < 0 then PosInf else NaN)"
| "fmul PosInf (Finite b) = (if 0 < b then PosInf else if b < 0 then NegInf else NaN)"
| "fmul NegInf (Finite b) = (if 0 < b then NegInf else if b < 0 then PosInf else NaN)"
| "fmul PosInf PosInf = PosInf"
| "fmul PosInf NegInf = NegInf"
| "fmul NegInf PosInf = NegInf"
| "fmul NegInf NegInf = PosInf"

fun fdiv :: "float64 \<Rightarrow> float64 \<Rightarrow> float64" where
  "fdiv NaN _ = NaN"
| "fdiv _ NaN = NaN"
| "fdiv (Finite a) (Finite b) =
     (if b \<noteq> 0 then Finite (a / b)
      else if 0 < a then PosInf else if a < 0 then NegInf else NaN)"
| "fdiv (Finite a) _ = Finite 0"
| "fdiv PosInf (Finite b) = (if 0 \<le> b then PosInf else NegInf)"
| "fdiv NegInf (Finite b) = (if 0 \<le> b then NegInf else PosInf)"
| "fdiv _ _ = NaN"

fun flt :: "float64 \<Rightarrow> float64 \<Rightarrow> bool" where
  "flt NaN _ = False"
| "flt _ NaN = False"
| "flt (Finite a) (Finite b) = (a < b)"
| "flt (Finite a) PosInf = True"
| "flt (Finite a) NegInf = False"
| "flt PosInf _ = False"
| "flt NegInf NegInf = False"
| "flt NegInf _ = True"

fun fle :: "float64 \<Rightarrow> float64 \<Rightarrow> bool" where
  "fle NaN _ = False"
| "fle _ NaN = False"
| "fle (Finite a) (Finite b) = (a \<le> b)"
| "fle (Finite a) PosInf = True"
| "fle (Finite a) NegInf = False"
| "fle PosInf PosInf = True"
| "fle PosInf _ = False"
| "fle NegInf _ = True"

definition fgt :: "float64 \<Rightarrow> float64 \<Rightarrow> bool" where
  "fgt a b = flt b a"

text \<open>
  \<open>math.Pow(x, float64(n))\<close> at a finite base and an integer exponent: \<open>x\<close> to the
  power \<open>n\<close>, and \<open>+Inf\<close> for a zero base with a negative exponent.
\<close>

definition math_Pow :: "real \<Rightarrow> int \<Rightarrow> float64" where
  "math_Pow x n = (if x = 0 \<and> n < 0 then PosInf else Finite (power_int x n))"

section \<open>Data model (segment.go)\<close>

definition SegmentDutyCycleTiers :: "int list" where
  "SegmentDutyCycleTiers = [0, 100, 320, 1000, 3200, 10000, 32000, 100000, 320000]"

definition SegmentDutyCycleAlphas :: "real list" where
  "SegmentDutyCycleAlphas = [0, 0.0032, 0.0010, 0.00032, 0.00010, 0.000032, 0.00001,
     0.0000032, 0.0000010]"

record Synapse =
  SrcCellCol :: int
  SrcCellIdx :: int
  Permanence :: float64

text \<open>
  The segment's back-reference \<open>tp\<close> to its temporal pooler is a pointer to shared,
  externally owned state; the model passes the pooler to every operation instead.
\<close>

record Segment =
  segId :: int
  isSequenceSeg :: bool
  lastActiveIteration :: int
  positiveActivations :: int
  totalActivations :: int
  lastPosDutyCycle :: float64
  lastPosDutyCycleIteration :: int
  syns :: "Synapse list"

text \<open>
  The declaration of \<open>TemporalPooler\<close> is not among the sources; the records below hold
  the fields segment.go reads from it.
\<close>

record TemporalPoolerParams =
  Verbosity :: int
  PermanenceMax :: float64
  NewSynapseCount :: int

record TemporalPooler =
  params :: TemporalPoolerParams
  lrnIterationIdx :: int

section \<open>Duty cycle\<close>

text \<open>
  The loop of \<open>dutyCycle\<close> that picks alpha: \<open>i\<close> runs from the last tier down to 1,
  and the first tier that the iteration counter strictly exceeds gives the alpha;
  alpha stays \<open>0.0\<close> when the loop ends without a hit.
\<close>

fun alphaLoop :: "int \<Rightarrow> nat \<Rightarrow> real" where
  "alphaLoop lrn 0 = 0"
| "alphaLoop lrn (Suc k) =
     (if lrn > SegmentDutyCycleTiers ! Suc k then SegmentDutyCycleAlphas ! Suc k
      else alphaLoop lrn k)"

definition dutyCycle :: "TemporalPooler \<Rightarrow> Segment \<Rightarrow> bool \<Rightarrow> bool \<Rightarrow> float64 \<times> Segment" where
  "dutyCycle tp s active readOnly =
     (if lrnIterationIdx tp \<le> SegmentDutyCycleTiers ! 1 then
        (let dc = fdiv (float64_of_int (positiveActivations s))
                       (float64_of_int (lrnIterationIdx tp))
         in if \<not> readOnly
            then (dc, s\<lparr>lastPosDutyCycleIteration := lrnIterationIdx tp,
                        lastPosDutyCycle := dc\<rparr>)
            else (dc, s))
      else
        (let age = isub (lrnIterationIdx tp) (lastPosDutyCycleIteration s)
         in if age = 0 \<and> \<not> active then (lastPosDutyCycle s, s)
            else
              (let alpha = alphaLoop (lrnIterationIdx tp) (length SegmentDutyCycleTiers - 1);
                   dc0 = fmul (math_Pow (1 - alpha) age) (lastPosDutyCycle s);
                   dc = (if active then fadd dc0 (Finite alpha) else dc0)
               in if \<not> readOnly
                  then (dc, s\<lparr>lastPosDutyCycleIteration := lrnIterationIdx tp,
                              lastPosDutyCycle := dc\<rparr>)
                  else (dc, s))))"

section \<open>Panics\<close>

text \<open>
  A panic of the Go runtime or of the code is a value. A mutating operation that panics
  returns the panic together with the segment as it is at that moment.
\<close>

datatype error =
    FreeTooMany
  | IndexOutOfRange
  | ArgsortLengthMismatch
  | MakeSliceLenOutOfRange

definition index :: "'a list \<Rightarrow> int \<Rightarrow> error + 'a" where
  "index xs i =
     (if 0 \<le> i \<and> i < int (length xs) then Inr (xs ! nat i) else Inl IndexOutOfRange)"

section \<open>Library functions used by segment.go\<close>

text \<open>
  Modelled from the spec: \<open>utils.ContainsInt\<close> is not among the sources. The segment
  is rebuilt "excluding freed indices", so \<open>ContainsInt q vals\<close> is the membership test
  of \<open>q\<close> in \<open>vals\<close>.
\<close>

definition ContainsInt :: "int \<Rightarrow> int list \<Rightarrow> bool" where
  "ContainsInt q vals = (q \<in> set vals)"

text \<open>
  \<open>floats.Argsort(dst, inds)\<close> of gonum: it panics when the two slices differ in
  length; otherwise it sorts \<open>dst\<close> in increasing order with \<open>sort.Sort\<close> and leaves in
  \<open>inds\<close> the original positions of the sorted elements. \<open>sort.Sort\<close> is not stable: the
  order it gives to equal keys is not fixed, and the insertion sort below is one of the
  orders it may give. \<open>freeNSynapses\<close> hands \<open>Argsort\<close> the empty slice \<open>indexes\<close> only, so
  the sorting branch is reached with nothing to sort.
\<close>

fun argsortInsert :: "float64 \<times> int \<Rightarrow> (float64 \<times> int) list \<Rightarrow> (float64 \<times> int) list" where
  "argsortInsert x [] = [x]"
| "argsortInsert x (y # ys) =
     (if flt (fst y) (fst x) then y # argsortInsert x ys else x # y # ys)"

definition Argsort :: "float64 list \<Rightarrow> int list \<Rightarrow> error + (float64 list \<times> int list)" where
  "Argsort dst inds =
     (if length dst \<noteq> length inds then Inl ArgsortLengthMismatch
      else (let ps = foldr argsortInsert (zip dst (map int [0..<length dst])) []
            in Inr (map fst ps, map snd ps)))"

section \<open>Freeing synapses\<close>

text \<open>
  \<open>for idx := range perms { perms[idx] = s.syns[idx].Permanence }\<close>: the index into the
  synapses is the position in \<open>perms\<close>.
\<close>

fun fillPerms :: "Synapse list \<Rightarrow> float64 list \<Rightarrow> nat \<Rightarrow> nat \<Rightarrow> error + float64 list" where
  "fillPerms sy perms idx 0 = Inr perms"
| "fillPerms sy perms idx (Suc k) =
     (if idx < length sy
      then fillPerms sy (perms[idx := Permanence (sy ! idx)]) (Suc idx) k
      else Inl IndexOutOfRange)"

text \<open>\<open>for i := 0; i < cSize; i++ { candidates[i] = inactiveSynapseIndices[indexes[i]] }\<close>\<close>

fun pickCandidates :: "int list \<Rightarrow> int list \<Rightarrow> int list \<Rightarrow> nat \<Rightarrow> nat \<Rightarrow> error + int list" where
  "pickCandidates inactive indexes cands i 0 = Inr cands"
| "pickCandidates inactive indexes cands i (Suc k) =
     (case index indexes (int i) of
        Inl e \<Rightarrow> Inl e
      | Inr j \<Rightarrow>
          (case index inactive j of
             Inl e \<Rightarrow> Inl e
           | Inr c \<Rightarrow> pickCandidates inactive indexes (cands[i := c]) (Suc i) k))"

text \<open>
  \<open>for i := 0; i < moreToFree; i++ { candidates = append(candidates,
  activeSynIndices[indexes[i]]) }\<close>
\<close>

fun appendCandidates :: "int list \<Rightarrow> int list \<Rightarrow> int list \<Rightarrow> nat \<Rightarrow> nat \<Rightarrow> error + int list" where
  "appendCandidates active indexes cands i 0 = Inr cands"
| "appendCandidates active indexes cands i (Suc k) =
     (case index indexes (int i) of
        Inl e \<Rightarrow> Inl e
      | Inr j \<Rightarrow>
          (case index active j of
             Inl e \<Rightarrow> Inl e
           | Inr c \<Rightarrow> appendCandidates active indexes (cands @ [c]) (Suc i) k))"

text \<open>
  The first block of \<open>freeNSynapses\<close>: the candidates taken from the inactive synapses.
  The slice \<open>indexes\<close> is declared and never allocated, so it is empty when it is handed
  to \<open>Argsort\<close>.
\<close>

definition inactiveCandidates :: "Segment \<Rightarrow> int \<Rightarrow> int list \<Rightarrow> error + int list" where
  "inactiveCandidates s numToFree inactiveSynapseIndices =
     (if length inactiveSynapseIndices > 0 then
        (case fillPerms (syns s) (replicate (length inactiveSynapseIndices) (Finite 0)) 0
                (length inactiveSynapseIndices) of
           Inl e \<Rightarrow> Inl e
         | Inr perms \<Rightarrow>
             (case Argsort perms [] of
                Inl e \<Rightarrow> Inl e
              | Inr (sorted_perms, indexes) \<Rightarrow>
                  (let cSize = min numToFree (int (length sorted_perms))
                   in if cSize < 0 then Inl MakeSliceLenOutOfRange
                      else pickCandidates inactiveSynapseIndices indexes
                             (replicate (nat cSize) 0) 0 (nat cSize))))
      else Inr [])"

text \<open>The second block: more candidates from the synapses outside the inactive list.\<close>

definition moreCandidates :: "Segment \<Rightarrow> int \<Rightarrow> int list \<Rightarrow> int list \<Rightarrow> error + int list" where
  "moreCandidates s numToFree inactiveSynapseIndices candidates =
     (if int (length candidates) < numToFree then
        (let activeSynIndices =
               filter (\<lambda>i. \<not> ContainsInt i inactiveSynapseIndices)
                 (map int [0..<length (syns s)])
         in case fillPerms (syns s) (replicate (length activeSynIndices) (Finite 0)) 0
                   (length activeSynIndices) of
              Inl e \<Rightarrow> Inl e
            | Inr perms \<Rightarrow>
                (case Argsort perms [] of
                   Inl e \<Rightarrow> Inl e
                 | Inr (sorted_perms, indexes) \<Rightarrow>
                     (let moreToFree = isub numToFree (int (length candidates))
                      in appendCandidates activeSynIndices indexes candidates 0
                           (nat moreToFree))))
      else Inr candidates)"

text \<open>
  \<open>freeNSynapses\<close>. The diagnostic printing under \<open>Verbosity\<close> reads the segment only
  and is left out. The synapse collection is assigned once, at the end.
\<close>

definition freeNSynapses :: "Segment \<Rightarrow> int \<Rightarrow> int list \<Rightarrow> (error \<times> Segment) + Segment" where
  "freeNSynapses s numToFree inactiveSynapseIndices =
     (if numToFree > int (length (syns s)) then Inl (FreeTooMany, s)
      else
        (case inactiveCandidates s numToFree inactiveSynapseIndices of
           Inl e \<Rightarrow> Inl (e, s)
         | Inr candidates \<Rightarrow>
             (case moreCandidates s numToFree inactiveSynapseIndices candidates of
                Inl e \<Rightarrow> Inl (e, s)
              | Inr candidates' \<Rightarrow>
                  Inr (s\<lparr>syns :=
                          map snd (filter (\<lambda>(idx, val). \<not> ContainsInt (int idx) candidates')
                                     (enumerate 0 (syns s)))\<rparr>))))"

section \<open>Updating synapses\<close>

text \<open>
  The two loops of \<open>updateSynapses\<close>, both \<open>for idx, _ := range synapses\<close>: \<open>idx\<close> is
  the position in the list of indices, and the element is discarded.
\<close>

fun incLoop :: "TemporalPooler \<Rightarrow> float64 \<Rightarrow> int list \<Rightarrow> nat \<Rightarrow> Segment \<Rightarrow> (error \<times> Segment) + Segment" where
  "incLoop tp delta [] idx s = Inr s"
| "incLoop tp delta (x # rest) idx s =
     (if idx < length (syns s) then
        (let p = fadd (Permanence (syns s ! idx)) delta;
             p' = (if fgt p (PermanenceMax (params tp)) then PermanenceMax (params tp) else p)
         in incLoop tp delta rest (Suc idx)
              (s\<lparr>syns := (syns s)[idx := (syns s ! idx)\<lparr>Permanence := p'\<rparr>]\<rparr>))
      else Inl (IndexOutOfRange, s))"

fun decLoop :: "float64 \<Rightarrow> int list \<Rightarrow> nat \<Rightarrow> bool \<Rightarrow> Segment \<Rightarrow> (error \<times> Segment) + (bool \<times> Segment)" where
  "decLoop delta [] idx hitZero s = Inr (hitZero, s)"
| "decLoop delta (x # rest) idx hitZero s =
     (if idx < length (syns s) then
        (let p = fadd (Permanence (syns s ! idx)) delta
         in if fle p (Finite 0)
            then decLoop delta rest (Suc idx) True
                   (s\<lparr>syns := (syns s)[idx := (syns s ! idx)\<lparr>Permanence := Finite 0\<rparr>]\<rparr>)
            else decLoop delta rest (Suc idx) hitZero
                   (s\<lparr>syns := (syns s)[idx := (syns s ! idx)\<lparr>Permanence := p\<rparr>]\<rparr>))
      else Inl (IndexOutOfRange, s))"

definition updateSynapses :: "TemporalPooler \<Rightarrow> Segment \<Rightarrow> int list \<Rightarrow> float64 \<Rightarrow> (error \<times> Segment) + (bool \<times> Segment)" where
  "updateSynapses tp s synapses delta =
     (if fgt delta (Finite 0) then
        (case incLoop tp delta synapses 0 s of
           Inl e \<Rightarrow> Inl e
         | Inr s' \<Rightarrow> Inr (False, s'))
      else decLoop delta synapses 0 False s)"

definition AddSynapse :: "Segment \<Rightarrow> int \<Rightarrow> int \<Rightarrow> float64 \<Rightarrow> Segment" where
  "AddSynapse s srcCellCol srcCellIdx perm =
     s\<lparr>syns := syns s @ [\<lparr>SrcCellCol = srcCellCol, SrcCellIdx = srcCellIdx, Permanence = perm\<rparr>]\<rparr>"

section \<open>Segment update proposals\<close>

text \<open>
  The declarations of \<open>SynapseUpdateState\<close> and \<open>SegmentUpdate\<close> are not among the
  sources; the records hold the fields \<open>getSegmentActiveSynapses\<close> assigns. A field that
  is not assigned keeps Go's zero value.
\<close>

record SynapseUpdateState =
  New :: bool
  Index :: int
  CellIndex :: int

record SegmentUpdate =
  columnIdx :: int
  cellIdx :: int
  segment :: "Segment option"
  activeSynapses :: "SynapseUpdateState list"

text \<open>
  \<open>for idx, val := range s.syns\<close>: the synapses whose source cell is on in
  \<open>activeState\<close> are appended with their position.
\<close>

fun scanActive :: "(int \<Rightarrow> int \<Rightarrow> bool) \<Rightarrow> Synapse list \<Rightarrow> nat \<Rightarrow> SynapseUpdateState list \<Rightarrow> SynapseUpdateState list" where
  "scanActive activeState [] idx acc = acc"
| "scanActive activeState (val # rest) idx acc =
     scanActive activeState rest (Suc idx)
       (if activeState (SrcCellCol val) (SrcCellIdx val)
        then acc @ [\<lparr>New = False, Index = int idx, CellIndex = 0\<rparr>]
        else acc)"

text \<open>\<open>for _, val := range newSyns\<close>: each chosen cell is appended, marked as new.\<close>

fun appendNew :: "SynapseUpdateState list \<Rightarrow> (int \<times> int) list \<Rightarrow> SynapseUpdateState list" where
  "appendNew acc [] = acc"
| "appendNew acc (val # rest) =
     appendNew (acc @ [\<lparr>New = True, Index = fst val, CellIndex = snd val\<rparr>]) rest"

text \<open>
  \<open>getSegmentActiveSynapses\<close>. The lookup \<open>activeState.Get\<close> and the cell-selection
  policy \<open>chooseCellsToLearnFrom\<close> belong to the temporal layer and are parameters: a
  lookup from (column, cell) to a truth value, and a function from the segment, a count
  and the lookup to a list of (row, column) pairs. A nil segment is \<open>None\<close>. The result
  is the proposal together with the segment after the call.
\<close>

definition getSegmentActiveSynapses ::
  "(Segment option \<Rightarrow> int \<Rightarrow> (int \<Rightarrow> int \<Rightarrow> bool) \<Rightarrow> (int \<times> int) list) \<Rightarrow> TemporalPooler \<Rightarrow>
   int \<Rightarrow> int \<Rightarrow> Segment option \<Rightarrow> (int \<Rightarrow> int \<Rightarrow> bool) \<Rightarrow> bool \<Rightarrow> SegmentUpdate \<times> Segment option" where
  "getSegmentActiveSynapses chooseCellsToLearnFrom tp c i s activeState newSynapses =
     (let base = (case s of None \<Rightarrow> [] | Some seg \<Rightarrow> scanActive activeState (syns seg) 0 []);
          activeSyns =
            (if newSynapses then
               (let nSynapsesToAdd = isub (NewSynapseCount (params tp)) (int (length base));
                    newSyns = chooseCellsToLearnFrom s nSynapsesToAdd activeState
                in appendNew base newSyns)
             else base)
      in (\<lparr>columnIdx = c, cellIdx = i, segment = s, activeSynapses = activeSyns\<rparr>, s))"

section \<open>Printing a segment\<close>

text \<open>\<open>%v\<close> of an integer is its decimal numeral, of a boolean \<open>true\<close> or \<open>false\<close>.\<close>

definition digit_char :: "nat \<Rightarrow> char" where
  "digit_char n = ''0123456789'' ! n"

function show_nat :: "nat \<Rightarrow> string" where
  "show_nat n = (if n < 10 then [digit_char n] else show_nat (n div 10) @ [digit_char (n mod 10)])"
  by pat_completeness auto
termination
  by (relation "measure id") auto

definition show_int :: "int \<Rightarrow> string" where
  "show_int i = (if i < 0 then ''-'' @ show_nat (nat (- i)) else show_nat (nat i))"

definition show_bool :: "bool \<Rightarrow> string" where
  "show_bool b = (if b then ''true'' else ''false'')"

text \<open>\<open>for _, syn := range s.syns { result += fmt.Sprintf(" [%v,%v]%v", ...) }\<close>\<close>

fun printSyns :: "(float64 \<Rightarrow> string) \<Rightarrow> string \<Rightarrow> Synapse list \<Rightarrow> string" where
  "printSyns fmtFloat result [] = result"
| "printSyns fmtFloat result (syn # rest) =
     printSyns fmtFloat
       (result @ '' ['' @ show_int (SrcCellCol syn) @ '','' @ show_int (SrcCellIdx syn) @ '']''
          @ fmtFloat (Permanence syn))
       rest"

text \<open>
  \<open>ToString\<close>. The text that \<open>%v\<close> gives for a \<open>float64\<close> is the parameter \<open>fmtFloat\<close>.
  The result is the string together with the segment after the call.
\<close>

definition ToString :: "(float64 \<Rightarrow> string) \<Rightarrow> TemporalPooler \<Rightarrow> Segment \<Rightarrow> string \<times> Segment" where
  "ToString fmtFloat tp s =
     (let result = ''ID:'' @ show_int (segId s) @ '' '' @ show_bool (isSequenceSeg s) @ '' '';
          (dc, s1) = dutyCycle tp s False True;
          result = result @ fmtFloat dc;
          result = result @ '' ('' @ show_int (positiveActivations s1) @ ''/''
                     @ show_int (totalActivations s1) @ '') '';
          result = result @ show_int (isub (lrnIterationIdx tp) (lastActiveIteration s1));
          result = printSyns fmtFloat result (syns s1);
          result = result @ [CHR 0x0A]
      in (result, s1))"

section \<open>Creating a segment\<close>

text \<open>
  \<open>NewSegment\<close>. The method \<open>GetSegId\<close> of the pooler is not among the sources and is a
  parameter: it returns an id and the pooler after the call. The fields read after the
  call are read from that pooler.
\<close>

definition NewSegment :: "(TemporalPooler \<Rightarrow> int \<times> TemporalPooler) \<Rightarrow> TemporalPooler \<Rightarrow> bool \<Rightarrow> Segment \<times> TemporalPooler" where
  "NewSegment GetSegId tp isSeq =
     (let (sid, tp1) = GetSegId tp
      in (\<lparr>segId = sid,
           isSequenceSeg = isSeq,
           lastActiveIteration = lrnIterationIdx tp1,
           positiveActivations = 1,
           totalActivations = 1,
           lastPosDutyCycle = fdiv (Finite 1) (float64_of_int (lrnIterationIdx tp1)),
           lastPosDutyCycleIteration = lrnIterationIdx tp1,
           syns = []\<rparr>, tp1))"

section \<open>Statements of the specification\<close>

text \<open>
  The alpha paired with the largest tier threshold that satisfies \<open>P\<close>. The tier table
  is ascending, so the largest such threshold is the last one.
\<close>

definition alphaForLargestTier :: "(int \<Rightarrow> bool) \<Rightarrow> real" where
  "alphaForLargestTier P =
     snd (last (filter (\<lambda>(t, a). P t) (zip SegmentDutyCycleTiers SegmentDutyCycleAlphas)))"

text \<open>
  The moving average of the specification, \<open>(1-alpha)^age * dc[tLast] + (active ? alpha : 0)\<close>
  with \<open>age = currentIteration - lastCachedIteration\<close>.
\<close>

definition movingAverage :: "real \<Rightarrow> TemporalPooler \<Rightarrow> Segment \<Rightarrow> bool \<Rightarrow> float64" where
  "movingAverage alpha tp s active =
     fadd (fmul (math_Pow (1 - alpha) (isub (lrnIterationIdx tp) (lastPosDutyCycleIteration s)))
                (lastPosDutyCycle s))
          (Finite (if active then alpha else 0))"

text \<open>
  The duty cycle as the specification words it: alpha belongs to the largest tier
  threshold that is at most the current iteration.
\<close>

definition claimedDutyCycle :: "TemporalPooler \<Rightarrow> Segment \<Rightarrow> bool \<Rightarrow> float64" where
  "claimedDutyCycle tp s active =
     movingAverage (alphaForLargestTier (\<lambda>t. t \<le> lrnIterationIdx tp)) tp s active"

text \<open>
  The base list of a proposal as the specification words it: empty for a nil segment,
  otherwise the positions, in order, of the synapses whose source cell is active.
\<close>

definition baseActiveSynapses :: "Segment option \<Rightarrow> (int \<Rightarrow> int \<Rightarrow> bool) \<Rightarrow> SynapseUpdateState list" where
  "baseActiveSynapses s activeState =
     (case s of
        None \<Rightarrow> []
      | Some seg \<Rightarrow>
          map (\<lambda>i. \<lparr>New = False, Index = int i, CellIndex = 0\<rparr>)
            (filter (\<lambda>i. activeState (SrcCellCol (syns seg ! i)) (SrcCellIdx (syns seg ! i)))
               [0..<length (syns seg)]))"

definition newEntry :: "int \<times> int \<Rightarrow> SynapseUpdateState" where
  "newEntry val = \<lparr>New = True, Index = fst val, CellIndex = snd val\<rparr>"

text \<open>The text of one synapse in the debug line: \<open> [<col>,<cell>]<perm>\<close>.\<close>

definition synapseText :: "(float64 \<Rightarrow> string) \<Rightarrow> Synapse \<Rightarrow> string" where
  "synapseText fmtFloat sy =
     '' ['' @ show_int (SrcCellCol sy) @ '','' @ show_int (SrcCellIdx sy) @ '']''
       @ fmtFloat (Permanence sy)"

section \<open>Example inputs\<close>

definition exampleParams :: TemporalPoolerParams where
  "exampleParams = \<lparr>Verbosity = 0, PermanenceMax = Finite 1, NewSynapseCount = 3\<rparr>"

definition poolerAt :: "int \<Rightarrow> TemporalPooler" where
  "poolerAt n = \<lparr>params = exampleParams, lrnIterationIdx = n\<rparr>"

definition syn :: "int \<Rightarrow> int \<Rightarrow> real \<Rightarrow> Synapse" where
  "syn c i p = \<lparr>SrcCellCol = c, SrcCellIdx = i, Permanence = Finite p\<rparr>"

definition segmentWith :: "int \<Rightarrow> float64 \<Rightarrow> Synapse list \<Rightarrow> Segment" where
  "segmentWith it dc sy =
     \<lparr>segId = 54413, isSequenceSeg = True, lastActiveIteration = it, positiveActivations = 2,
      totalActivations = 4, lastPosDutyCycle = dc, lastPosDutyCycleIteration = it, syns = sy\<rparr>"

definition exampleGetSegId :: "TemporalPooler \<Rightarrow> int \<times> TemporalPooler" where
  "exampleGetSegId tp = (54413, tp)"

section \<open>Properties of the duty cycle\<close>

lemma tier1: "SegmentDutyCycleTiers ! Suc 0 = 100"
  by (simp add: SegmentDutyCycleTiers_def)

text \<open>
  C5. While the learning-iteration counter is in the first tier, between 1 and 100,
  \<open>dutyCycle\<close> returns the quotient of \<open>positiveActivations\<close> by the counter, whatever
  \<open>active\<close> and \<open>readOnly\<close> are.
\<close>

theorem dutyCycle_tier0:
  assumes "1 \<le> lrnIterationIdx tp" and "lrnIterationIdx tp \<le> 100"
  shows "fst (dutyCycle tp s active readOnly) =
           Finite (real_of_int (positiveActivations s) / real_of_int (lrnIterationIdx tp))"
  using assms by (simp add: dutyCycle_def tier1 float64_of_int_def Let_def)

text \<open>At iteration 4, two positive activations give the duty cycle one half.\<close>

theorem dutyCycle_tier0_witness:
  "1 \<le> lrnIterationIdx (poolerAt 4) \<and> lrnIterationIdx (poolerAt 4) \<le> 100 \<and>
   fst (dutyCycle (poolerAt 4) (segmentWith 3 (Finite 1) []) True False) = Finite (1 / 2)"
  using dutyCycle_tier0 [of "poolerAt 4" "segmentWith 3 (Finite 1) []" True False]
  by (simp add: poolerAt_def segmentWith_def)

text \<open>
  The loop that picks alpha compares with \<open>>\<close>: past the first tier it returns the alpha
  of the largest tier threshold strictly below the iteration counter.
\<close>

lemma alphaLoop_strict:
  assumes "100 < lrn"
  shows "alphaLoop lrn (length SegmentDutyCycleTiers - 1) = alphaForLargestTier (\<lambda>t. t < lrn)"
proof -
  have len: "length SegmentDutyCycleTiers - 1 = Suc (Suc (Suc (Suc (Suc (Suc (Suc (Suc 0)))))))"
    by (simp add: SegmentDutyCycleTiers_def)
  show ?thesis
    using assms unfolding len alphaForLargestTier_def
    by (simp add: SegmentDutyCycleTiers_def SegmentDutyCycleAlphas_def)
qed

text \<open>The tier table is strictly ascending and as long as the alpha table.\<close>

lemma tiers_ascending:
  "sorted_wrt (<) SegmentDutyCycleTiers \<and>
   length SegmentDutyCycleTiers = length SegmentDutyCycleAlphas"
  by (simp add: SegmentDutyCycleTiers_def SegmentDutyCycleAlphas_def)

lemma fadd_zero: "fadd x (Finite 0) = x"
  by (cases x) simp_all

text \<open>
  C3, as amended. Past the first tier (counter above 100), when the cached duty cycle is
  stale or the segment is active this step, \<open>dutyCycle\<close> returns
  \<open>(1-alpha)^age * lastPosDutyCycle + (active ? alpha : 0)\<close> with
  \<open>age = lrnIterationIdx - lastPosDutyCycleIteration\<close>, where alpha is the alpha paired
  with the largest tier threshold strictly below the current iteration.
\<close>

theorem dutyCycle_moving_average:
  assumes "100 < lrnIterationIdx tp"
    and "isub (lrnIterationIdx tp) (lastPosDutyCycleIteration s) \<noteq> 0 \<or> active"
  shows "fst (dutyCycle tp s active readOnly) =
           movingAverage (alphaForLargestTier (\<lambda>t. t < lrnIterationIdx tp)) tp s active"
proof -
  have a: "alphaLoop (lrnIterationIdx tp) (length SegmentDutyCycleTiers - 1)
             = alphaForLargestTier (\<lambda>t. t < lrnIterationIdx tp)"
    using assms(1) by (rule alphaLoop_strict)
  have t: "\<not> lrnIterationIdx tp \<le> SegmentDutyCycleTiers ! 1"
    using assms(1) by (simp add: tier1)
  show ?thesis
    using assms(2) t
    by (auto simp: dutyCycle_def Let_def a movingAverage_def fadd_zero simp del: One_nat_def)
qed

text \<open>
  At iteration 1000 the tier in force is the one above 320, with alpha 0.001: a cached
  value of one half, two iterations old, decays to \<open>0.999^2 / 2\<close>.
\<close>

theorem dutyCycle_moving_average_witness:
  "100 < lrnIterationIdx (poolerAt 1000) \<and>
   isub (lrnIterationIdx (poolerAt 1000))
        (lastPosDutyCycleIteration (segmentWith 998 (Finite (1 / 2)) [])) \<noteq> 0 \<and>
   fst (dutyCycle (poolerAt 1000) (segmentWith 998 (Finite (1 / 2)) []) False False) =
     Finite ((999 / 1000) ^ 2 * (1 / 2))"
  using dutyCycle_moving_average [of "poolerAt 1000" "segmentWith 998 (Finite (1 / 2)) []" False False]
  by (simp add: poolerAt_def segmentWith_def movingAverage_def alphaForLargestTier_def
      SegmentDutyCycleTiers_def SegmentDutyCycleAlphas_def isub_def int64_wrap_def math_Pow_def
      power_int_def)

text \<open>
  At iteration 320 exactly, the largest tier threshold that is at most the iteration is
  320, with alpha 0.001; the code compares strictly and still uses alpha 0.0032. An active
  segment with an up-to-date cached value of one half gets 0.5032, not 0.501.
\<close>

theorem dutyCycle_claimed_alpha_counterexample:
  "100 < lrnIterationIdx (poolerAt 320) \<and>
   fst (dutyCycle (poolerAt 320) (segmentWith 320 (Finite (1 / 2)) []) True True) = Finite (629 / 1250) \<and>
   claimedDutyCycle (poolerAt 320) (segmentWith 320 (Finite (1 / 2)) []) True = Finite (501 / 1000) \<and>
   fst (dutyCycle (poolerAt 320) (segmentWith 320 (Finite (1 / 2)) []) True True)
     \<noteq> claimedDutyCycle (poolerAt 320) (segmentWith 320 (Finite (1 / 2)) []) True"
  by (simp add: dutyCycle_def claimedDutyCycle_def poolerAt_def segmentWith_def movingAverage_def
      alphaForLargestTier_def SegmentDutyCycleTiers_def SegmentDutyCycleAlphas_def isub_def
      int64_wrap_def math_Pow_def Let_def eval_nat_numeral)

text \<open>
  C6. A read-only call of \<open>dutyCycle\<close> leaves the segment as it is, every field of it,
  and returns the value the call that is not read-only returns.
\<close>

theorem dutyCycle_readOnly:
  "snd (dutyCycle tp s active True) = s \<and>
   fst (dutyCycle tp s active True) = fst (dutyCycle tp s active False)"
  by (simp add: dutyCycle_def Let_def)

section \<open>Properties of segment creation\<close>

text \<open>
  C9. \<open>NewSegment\<close> sets both activation counts to 1, the last-active iteration and the
  cache iteration to the pooler's current counter, and the cached duty cycle to
  \<open>1.0 / float64(lrnIterationIdx)\<close>. From iteration 1 on this is the finite value
  \<open>1 / lrnIterationIdx\<close>; at iteration 0 the division is not guarded and gives \<open>+Inf\<close>.
  For a counter that is not negative, the cached value is finite exactly when the counter
  is at least 1.
\<close>

theorem NewSegment_init:
  "positiveActivations (fst (NewSegment GetSegId tp isSeq)) = 1 \<and>
   totalActivations (fst (NewSegment GetSegId tp isSeq)) = 1 \<and>
   lastActiveIteration (fst (NewSegment GetSegId tp isSeq))
     = lrnIterationIdx (snd (NewSegment GetSegId tp isSeq)) \<and>
   lastPosDutyCycleIteration (fst (NewSegment GetSegId tp isSeq))
     = lrnIterationIdx (snd (NewSegment GetSegId tp isSeq)) \<and>
   lastPosDutyCycle (fst (NewSegment GetSegId tp isSeq))
     = fdiv (Finite 1) (float64_of_int (lrnIterationIdx (snd (NewSegment GetSegId tp isSeq)))) \<and>
   (1 \<le> lrnIterationIdx (snd (NewSegment GetSegId tp isSeq)) \<longrightarrow>
      lastPosDutyCycle (fst (NewSegment GetSegId tp isSeq))
        = Finite (1 / real_of_int (lrnIterationIdx (snd (NewSegment GetSegId tp isSeq))))) \<and>
   (lrnIterationIdx (snd (NewSegment GetSegId tp isSeq)) = 0 \<longrightarrow>
      lastPosDutyCycle (fst (NewSegment GetSegId tp isSeq)) = PosInf) \<and>
   (0 \<le> lrnIterationIdx (snd (NewSegment GetSegId tp isSeq)) \<longrightarrow>
      isFinite (lastPosDutyCycle (fst (NewSegment GetSegId tp isSeq)))
        = (1 \<le> lrnIterationIdx (snd (NewSegment GetSegId tp isSeq))))"
  by (auto simp: NewSegment_def float64_of_int_def split: prod.splits)

text \<open>A segment created at iteration 0 caches \<open>+Inf\<close>; one created at iteration 4 caches 1/4.\<close>

theorem NewSegment_init_witness:
  "lrnIterationIdx (snd (NewSegment exampleGetSegId (poolerAt 0) True)) = 0 \<and>
   lastPosDutyCycle (fst (NewSegment exampleGetSegId (poolerAt 0) True)) = PosInf \<and>
   \<not> isFinite (lastPosDutyCycle (fst (NewSegment exampleGetSegId (poolerAt 0) True))) \<and>
   1 \<le> lrnIterationIdx (snd (NewSegment exampleGetSegId (poolerAt 4) True)) \<and>
   lastPosDutyCycle (fst (NewSegment exampleGetSegId (poolerAt 4) True)) = Finite (1 / 4)"
proof -
  have z: "lrnIterationIdx (snd (NewSegment exampleGetSegId (poolerAt 0) True)) = 0"
    by (simp add: NewSegment_def exampleGetSegId_def poolerAt_def)
  have f: "lrnIterationIdx (snd (NewSegment exampleGetSegId (poolerAt 4) True)) = 4"
    by (simp add: NewSegment_def exampleGetSegId_def poolerAt_def)
  show ?thesis
    using NewSegment_init [of exampleGetSegId "poolerAt 0" True]
      NewSegment_init [of exampleGetSegId "poolerAt 4" True]
    by (simp add: z f float64_of_int_def)
qed

section \<open>Properties of segment update proposals\<close>

lemma scanActive_enum:
  "scanActive act xs k acc =
     acc @ map (\<lambda>p. \<lparr>New = False, Index = int (fst p), CellIndex = 0\<rparr>)
            (filter (\<lambda>p. act (SrcCellCol (snd p)) (SrcCellIdx (snd p))) (enumerate k xs))"
  by (induction xs arbitrary: k acc) auto

lemma enum_filter_idx:
  "map fst (filter (\<lambda>p. Q (snd p)) (enumerate 0 xs)) = filter (\<lambda>i. Q (xs ! i)) [0..<length xs]"
proof -
  have "filter (\<lambda>p. Q (snd p)) (zip [0..<length xs] xs)
          = filter (\<lambda>p. Q (xs ! fst p)) (zip [0..<length xs] xs)"
    by (rule filter_cong) (auto simp: in_set_zip)
  moreover have "zip [0..<length xs] xs = map (\<lambda>i. (i, xs ! i)) [0..<length xs]"
    by (rule nth_equalityI) simp_all
  ultimately show ?thesis
    by (simp add: enumerate_eq_zip filter_map comp_def)
qed

lemma scanActive_base:
  "scanActive act xs 0 [] =
     map (\<lambda>i. \<lparr>New = False, Index = int i, CellIndex = 0\<rparr>)
       (filter (\<lambda>i. act (SrcCellCol (xs ! i)) (SrcCellIdx (xs ! i))) [0..<length xs])"
proof -
  have "scanActive act xs 0 [] =
      map (\<lambda>i. \<lparr>New = False, Index = int i, CellIndex = 0\<rparr>)
        (map fst (filter (\<lambda>p. act (SrcCellCol (snd p)) (SrcCellIdx (snd p))) (enumerate 0 xs)))"
    by (simp add: scanActive_enum comp_def)
  then show ?thesis
    by (simp add: enum_filter_idx [of "\<lambda>v. act (SrcCellCol v) (SrcCellIdx v)"])
qed

lemma appendNew_map: "appendNew acc vs = acc @ map newEntry vs"
  by (induction vs arbitrary: acc) (auto simp: newEntry_def)

text \<open>
  C7. \<open>getSegmentActiveSynapses\<close> has no failing step: for every column index, cell
  index and active state it returns a proposal and leaves the segment as it was. The
  active-synapse list of the proposal starts with the base list, which is empty for a nil
  segment and otherwise holds exactly the positions of the synapses whose source
  (column, cell) is active; the cells chosen for growth follow it, marked as new, only
  when new synapses are asked for.
\<close>

theorem getSegmentActiveSynapses_proposal:
  "snd (getSegmentActiveSynapses chooseCells tp c i s act newSynapses) = s \<and>
   segment (fst (getSegmentActiveSynapses chooseCells tp c i s act newSynapses)) = s \<and>
   columnIdx (fst (getSegmentActiveSynapses chooseCells tp c i s act newSynapses)) = c \<and>
   cellIdx (fst (getSegmentActiveSynapses chooseCells tp c i s act newSynapses)) = i \<and>
   activeSynapses (fst (getSegmentActiveSynapses chooseCells tp c i s act newSynapses)) =
     baseActiveSynapses s act @
       (if newSynapses
        then map newEntry
               (chooseCells s (isub (NewSynapseCount (params tp))
                               (int (length (baseActiveSynapses s act)))) act)
        else []) \<and>
   baseActiveSynapses None act = []"
  by (cases s) (simp_all add: getSegmentActiveSynapses_def Let_def baseActiveSynapses_def
      scanActive_base appendNew_map)

section \<open>Properties of the debug line\<close>

lemma printSyns_concat: "printSyns f r xs = r @ concat (map (synapseText f) xs)"
  by (induction xs arbitrary: r) (auto simp: synapseText_def)

text \<open>
  C8. \<open>ToString\<close> returns the line
  \<open>ID:<id> <isSequenceSegment> <dutyCycle> (<positiveActivations>/<totalActivations>) <age>\<close>
  followed by \<open> [<col>,<cell>]<perm>\<close> for each synapse in stored order and a newline,
  where the duty cycle is the read-only one and the age is the current iteration minus
  the last active iteration. The segment is left as it was.
\<close>

theorem ToString_format:
  "fst (ToString fmtFloat tp s) =
     ''ID:'' @ show_int (segId s) @ '' '' @ show_bool (isSequenceSeg s) @ '' ''
       @ fmtFloat (fst (dutyCycle tp s False True))
       @ '' ('' @ show_int (positiveActivations s) @ ''/'' @ show_int (totalActivations s) @ '') ''
       @ show_int (isub (lrnIterationIdx tp) (lastActiveIteration s))
       @ concat (map (synapseText fmtFloat) (syns s))
       @ [CHR 0x0A] \<and>
   snd (ToString fmtFloat tp s) = s"
proof -
  have ro: "dutyCycle tp s False True = (fst (dutyCycle tp s False True), s)"
    by (simp add: dutyCycle_def Let_def)
  show ?thesis
    unfolding ToString_def Let_def
    by (subst ro, subst ro) (simp add: printSyns_concat)
qed

text \<open>The line of a segment with two synapses, one iteration after it was last active.\<close>

lemma ToString_example:
  "fst (ToString f (poolerAt 4) (segmentWith 3 (Finite 1) [syn 9 1 (3 / 4), syn 10 1 (3 / 4)])) =
     ''ID:54413 true '' @ f (Finite (1 / 2)) @ '' (2/4) 1 [9,1]'' @ f (Finite (3 / 4))
       @ '' [10,1]'' @ f (Finite (3 / 4)) @ [CHR 0x0A]"
  by (simp add: ToString_def printSyns_concat synapseText_def show_int_def show_bool_def
      poolerAt_def segmentWith_def syn_def digit_char_def isub_def int64_wrap_def dutyCycle_def
      Let_def SegmentDutyCycleTiers_def float64_of_int_def)

section \<open>Properties of updateSynapses\<close>

lemma incLoop_returns:
  "idx + length xs \<le> length (syns s) \<Longrightarrow> \<exists>s'. incLoop tp d xs idx s = Inr s'"
  by (induction xs arbitrary: idx s) (auto simp: Let_def)

lemma distinct_existing_length:
  assumes "distinct xs" and "\<forall>i\<in>set xs. 0 \<le> i \<and> i < int n"
  shows "length xs \<le> n"
proof -
  have "set xs \<subseteq> {0..<int n}" using assms(2) by auto
  then have "card (set xs) \<le> card {0..<int n}" by (intro card_mono) auto
  then show ?thesis using assms(1) by (simp add: distinct_card)
qed

text \<open>
  Both loops look only at the positions of the index list: two lists of the same length
  give the same result, whatever indices they hold.
\<close>

lemma incLoop_positions:
  "length xs = length ys \<Longrightarrow> incLoop tp d xs idx s = incLoop tp d ys idx s"
  by (induction xs ys arbitrary: idx s rule: list_induct2) (auto simp: Let_def)

lemma decLoop_positions:
  "length xs = length ys \<Longrightarrow> decLoop d xs idx h s = decLoop d ys idx h s"
  by (induction xs ys arbitrary: idx h s rule: list_induct2) (auto simp: Let_def)

lemma updateSynapses_positions:
  "length xs = length ys \<Longrightarrow> updateSynapses tp s xs d = updateSynapses tp s ys d"
  by (simp add: updateSynapses_def incLoop_positions [of xs ys] decLoop_positions [of xs ys])

text \<open>
  C2. The claim is that \<open>updateSynapses\<close> adds delta to exactly the synapses named by the
  index list. On a segment of three synapses with permanence 0.5 each, the index list
  \<open>[2]\<close> and delta 0.1, the code returns false with synapse 0 raised to 0.6 and synapse 2
  still at 0.5: the loops index the synapses by the position in the list, not by the index
  stored there.
\<close>

theorem updateSynapses_by_position:
  "updateSynapses (poolerAt 1)
     (segmentWith 1 (Finite 1) [syn 0 0 (1 / 2), syn 0 1 (1 / 2), syn 0 2 (1 / 2)])
     [2] (Finite (1 / 10))
   = Inr (False, segmentWith 1 (Finite 1) [syn 0 0 (3 / 5), syn 0 1 (1 / 2), syn 0 2 (1 / 2)])"
  by (simp add: updateSynapses_def segmentWith_def syn_def poolerAt_def exampleParams_def
      fgt_def Let_def)

text \<open>
  A list that repeats an index is read by position like any other: \<open>[0, 0]\<close> on a segment
  with one synapse updates synapse 0 once and panics at position 1.
\<close>

lemma updateSynapses_repeated_index:
  "updateSynapses (poolerAt 1) (segmentWith 1 (Finite 1) [syn 0 0 (1 / 2)]) [0, 0] (Finite (1 / 10))
     = Inl (IndexOutOfRange, segmentWith 1 (Finite 1) [syn 0 0 (3 / 5)])"
  by (simp add: updateSynapses_def segmentWith_def syn_def poolerAt_def exampleParams_def
      fgt_def Let_def)

text \<open>
  C10. For a delta above 0, \<open>updateSynapses\<close> never returns true: the hit-zero signal is
  raised on the path for a delta that is not positive only, so a reinforcing update never
  reports that a synapse reached permanence 0. On every list of distinct indices of
  existing synapses the call returns, and what it returns is false.
\<close>

theorem updateSynapses_reinforcing:
  assumes "fgt delta (Finite 0)"
  shows "(\<forall>s'. updateSynapses tp s synapses delta \<noteq> Inr (True, s')) \<and>
         (distinct synapses \<and> (\<forall>i\<in>set synapses. 0 \<le> i \<and> i < int (length (syns s))) \<longrightarrow>
            (\<exists>s'. updateSynapses tp s synapses delta = Inr (False, s')))"
proof (intro conjI allI impI)
  fix s'
  show "updateSynapses tp s synapses delta \<noteq> Inr (True, s')"
    using assms by (simp add: updateSynapses_def split: sum.splits)
next
  assume d: "distinct synapses \<and> (\<forall>i\<in>set synapses. 0 \<le> i \<and> i < int (length (syns s)))"
  then have "length synapses \<le> length (syns s)"
    using distinct_existing_length [of synapses "length (syns s)"] by blast
  then obtain s' where "incLoop tp delta synapses 0 s = Inr s'"
    using incLoop_returns [of 0 synapses s tp delta] by auto
  then show "\<exists>s'. updateSynapses tp s synapses delta = Inr (False, s')"
    using assms by (simp add: updateSynapses_def)
qed

text \<open>One synapse at 0.5, reinforced by 0.1, ends at 0.6 and the call returns false.\<close>

theorem updateSynapses_reinforcing_witness:
  "fgt (Finite (1 / 10)) (Finite 0) \<and>
   distinct [0 :: int] \<and>
   set [0 :: int] = {0} \<and> (0 :: int) \<le> 0 \<and>
   (0 :: int) < int (length (syns (segmentWith 1 (Finite 1) [syn 0 0 (1 / 2)]))) \<and>
   updateSynapses (poolerAt 1) (segmentWith 1 (Finite 1) [syn 0 0 (1 / 2)]) [0] (Finite (1 / 10))
     = Inr (False, segmentWith 1 (Finite 1) [syn 0 0 (3 / 5)])"
proof -
  have h: "fgt (Finite (1 / 10)) (Finite 0)" by (simp add: fgt_def)
  have "\<exists>s'. updateSynapses (poolerAt 1) (segmentWith 1 (Finite 1) [syn 0 0 (1 / 2)]) [0] (Finite (1 / 10))
          = Inr (False, s')"
    using updateSynapses_reinforcing [OF h, of "poolerAt 1" "segmentWith 1 (Finite 1) [syn 0 0 (1 / 2)]" "[0]"]
    by (simp add: segmentWith_def)
  then show ?thesis
    by (simp add: h updateSynapses_def segmentWith_def syn_def poolerAt_def exampleParams_def
        fgt_def Let_def)
qed

section \<open>Properties of freeNSynapses\<close>

text \<open>
  \<open>Argsort\<close> is always handed the empty slice \<open>indexes\<close>, so it returns only for an empty
  \<open>perms\<close>.
\<close>

lemma Argsort_nil:
  "Argsort perms [] = (if perms = [] then Inr ([], []) else Inl ArgsortLengthMismatch)"
  by (simp add: Argsort_def)

lemma fillPerms_length:
  "fillPerms sy perms idx k = Inr r \<Longrightarrow> length r = length perms"
  by (induction k arbitrary: perms idx) (auto split: if_splits)

lemma inactiveCandidates_returns:
  "inactiveCandidates s n inact = Inr c \<longleftrightarrow> inact = [] \<and> c = []"
proof (cases "inact = []")
  case True
  then show ?thesis by (auto simp: inactiveCandidates_def)
next
  case False
  have "fillPerms (syns s) (replicate (length inact) (Finite 0)) 0 (length inact) = Inr p \<Longrightarrow>
        Argsort p [] = Inl ArgsortLengthMismatch" for p
    using False by (auto simp: Argsort_nil dest: fillPerms_length)
  with False show ?thesis
    by (auto simp: inactiveCandidates_def split: sum.splits)
qed

lemma moreCandidates_nil:
  assumes "n \<le> int (length (syns s))"
  shows "moreCandidates s n [] [] = Inr c \<longleftrightarrow> n \<le> 0 \<and> c = []"
proof (cases "n \<le> 0")
  case True
  then show ?thesis by (auto simp: moreCandidates_def)
next
  case False
  then have ne: "syns s \<noteq> []" using assms by auto
  have act: "filter (\<lambda>i. \<not> ContainsInt i []) (map int [0..<length (syns s)])
               = map int [0..<length (syns s)]"
    by (simp add: ContainsInt_def)
  have "fillPerms (syns s) (replicate (length (syns s)) (Finite 0)) 0 (length (syns s)) = Inr p \<Longrightarrow>
        Argsort p [] = Inl ArgsortLengthMismatch" for p
    using ne by (auto simp: Argsort_nil dest: fillPerms_length)
  with False show ?thesis
    by (auto simp: moreCandidates_def act Let_def split: sum.splits)
qed

lemma keep_all:
  "map snd (filter (\<lambda>(idx, val). \<not> ContainsInt (int idx) []) (enumerate 0 xs)) = xs"
  by (simp add: ContainsInt_def case_prod_unfold enumerate_eq_zip)

text \<open>
  \<open>freeNSynapses\<close> returns only when there is nothing to free and no inactive synapse is
  listed; the segment is then unchanged. Every other call panics.
\<close>

lemma freeNSynapses_returns:
  "freeNSynapses s numToFree inactive = Inr s' \<longleftrightarrow> inactive = [] \<and> numToFree \<le> 0 \<and> s' = s"
proof (cases "numToFree > int (length (syns s))")
  case True
  then show ?thesis by (auto simp: freeNSynapses_def)
next
  case False
  then have le: "numToFree \<le> int (length (syns s))" by simp
  show ?thesis
  proof (cases "inactiveCandidates s numToFree inactive")
    case (Inl e)
    then have "inactive \<noteq> []"
      using inactiveCandidates_returns [of s numToFree inactive "[]"] by auto
    with Inl False show ?thesis by (auto simp: freeNSynapses_def)
  next
    case (Inr c)
    then have i: "inactive = []" and c: "c = []"
      using inactiveCandidates_returns [of s numToFree inactive c] by auto
    show ?thesis
    proof (cases "moreCandidates s numToFree [] []")
      case (Inl e)
      then have "\<not> numToFree \<le> 0" using moreCandidates_nil [OF le, of "[]"] by auto
      with Inl Inr False i c show ?thesis by (auto simp: freeNSynapses_def)
    next
      case (Inr c')
      then have "numToFree \<le> 0" and "c' = []" using moreCandidates_nil [OF le, of c'] by auto
      with Inr \<open>inactiveCandidates s numToFree inactive = Inr c\<close> False i c show ?thesis
        by (auto simp: freeNSynapses_def keep_all)
    qed
  qed
qed

text \<open>The guard of \<open>freeNSynapses\<close>: asked for more than there is, it panics at once.\<close>

lemma freeNSynapses_too_many:
  "numToFree > int (length (syns s)) \<Longrightarrow>
     freeNSynapses s numToFree inactive = Inl (FreeTooMany, s)"
  by (simp add: freeNSynapses_def)

text \<open>
  C1. The claim is that \<open>freeNSynapses\<close> frees inactive synapses first, lowest permanence
  first. On a segment with synapse 0 at permanence 0.9 and synapse 1 at 0.1, asked to
  free one synapse with synapse 1 listed as inactive, the code frees nothing: it panics
  in \<open>Argsort\<close>, which gets one permanence and the empty slice \<open>indexes\<close>.
\<close>

theorem freeNSynapses_inactive_panics:
  "freeNSynapses (segmentWith 1 (Finite 1) [syn 0 0 (9 / 10), syn 0 1 (1 / 10)]) 1 [1]
     = Inl (ArgsortLengthMismatch, segmentWith 1 (Finite 1) [syn 0 0 (9 / 10), syn 0 1 (1 / 10)])"
  by (simp add: freeNSynapses_def inactiveCandidates_def Argsort_def segmentWith_def)

text \<open>
  C4. The claim is that \<open>freeNSynapses\<close> removes exactly \<open>numToFree\<close> synapses whenever
  that many exist. On a segment with one synapse, asked to free one with no inactive
  synapse listed, the code removes none: it panics in \<open>Argsort\<close> on the way to the
  candidates.
\<close>

theorem freeNSynapses_one_of_one_panics:
  "freeNSynapses (segmentWith 1 (Finite 1) [syn 0 0 (1 / 2)]) 1 []
     = Inl (ArgsortLengthMismatch, segmentWith 1 (Finite 1) [syn 0 0 (1 / 2)])"
  by (simp add: freeNSynapses_def inactiveCandidates_def moreCandidates_def Argsort_def
      segmentWith_def ContainsInt_def Let_def)

end
